theory Spec2Isabelle
  imports Main "HOL-Library.Word"
begin

section \<open>LPEL streams (stream.c): data model\<close>

text \<open>
  Pointers are either the null pointer or an address. Objects live in three stores
  (streams, stream descriptors, tasks), each a partial map from addresses; following a
  pointer that is null or not allocated is a fault. Items (\<open>void *\<close>) are pointers too;
  the stream never follows them.
\<close>

datatype ptr = NULL | Ptr nat

datatype fault = Assert_failed | Invalid_pointer | Not_resumed

datatype 'a result = Return 'a | Fault fault

definition bindR :: "'a result \<Rightarrow> ('a \<Rightarrow> 'b result) \<Rightarrow> 'b result" where
  "bindR m f = (case m of Fault e \<Rightarrow> Fault e | Return v \<Rightarrow> f v)"

definition assertR :: "bool \<Rightarrow> unit result" where
  "assertR b = (if b then Return () else Fault Assert_failed)"

text \<open>
  Modelled from the spec: the bounded buffer (buffer.h is missing). It has a fixed
  capacity; \<open>Top\<close> returns the item at the head or the null sentinel if empty, \<open>Pop\<close>
  removes the head, \<open>Put\<close> appends at the tail, \<open>IsSpace\<close> says whether a slot is free.
\<close>

record buffer_t =
  buf_size :: int
  buf_data :: "ptr list"

definition LpelBufferInit :: "int \<Rightarrow> buffer_t" where
  "LpelBufferInit n = \<lparr> buf_size = n, buf_data = [] \<rparr>"

definition LpelBufferTop :: "buffer_t \<Rightarrow> ptr" where
  "LpelBufferTop b = (case buf_data b of [] \<Rightarrow> NULL | x # xs \<Rightarrow> x)"

definition LpelBufferPop :: "buffer_t \<Rightarrow> buffer_t" where
  "LpelBufferPop b = b \<lparr> buf_data := tl (buf_data b) \<rparr>"

definition LpelBufferIsSpace :: "buffer_t \<Rightarrow> bool" where
  "LpelBufferIsSpace b = (int (length (buf_data b)) < buf_size b)"

definition LpelBufferPut :: "buffer_t \<Rightarrow> ptr \<Rightarrow> buffer_t" where
  "LpelBufferPut b item = b \<lparr> buf_data := buf_data b @ [item] \<rparr>"

text \<open>
  \<open>struct lpel_stream_t\<close>. The lock \<open>prod_lock\<close> carries no data in a sequential
  run and is left out; \<open>is_poll\<close> is a C \<open>int\<close> used as a flag. The field \<open>uid\<close>
  is an \<open>unsigned int\<close>, a 32-bit word, as is the counter \<open>stream_seq\<close> it is taken
  from: after 4294967295 the next stream gets the uid 0. The counters \<open>n_sem\<close> and
  \<open>e_sem\<close> are \<open>atomic_t\<close>; their overflow plays no role and they are unbounded
  integers here.
\<close>

record lpel_stream_t =
  buffer :: buffer_t
  uid :: "32 word"
  is_poll :: int
  prod_sd :: ptr
  cons_sd :: ptr
  n_sem :: int
  e_sem :: int

text \<open>
  Modelled from the spec: the stream descriptor \<open>lpel_stream_desc_t\<close> (stream.h is
  missing). It holds the task that opened it, the stream, the mode (\<open>r\<close> or \<open>w\<close>),
  the link \<open>next\<close> used by the stream set, and the monitoring object or null; these
  are also the fields stream.c assigns in \<open>LpelStreamOpen\<close>.
\<close>

record lpel_stream_desc_t =
  task :: ptr
  stream :: ptr
  mode :: char
  "next" :: ptr
  mon :: ptr

text \<open>
  Modelled from the spec: the task \<open>lpel_task_t\<close> (task.h is missing). It carries a
  poll token and the slot \<open>wakeup_sd\<close> for the descriptor that caused its wakeup;
  stream.c also reads its monitoring object (\<open>ct->mon\<close>). The reasons for blocking
  are the three that stream.c passes to \<open>LpelTaskBlock\<close>.
\<close>

record lpel_task_t =
  task_mon :: ptr
  poll_token :: int
  wakeup_sd :: ptr

datatype blocked = BLOCKED_ON_INPUT | BLOCKED_ON_OUTPUT | BLOCKED_ON_ANYIN

text \<open>
  What a call does to the outside is logged: calls of the scheduler and of the
  monitoring callbacks, in the order they happen.
\<close>

datatype event =
    TaskBlock ptr blocked
  | TaskUnblock ptr ptr
  | MonStreamClose ptr
  | MonStreamReplace ptr "32 word"
  | MonStreamBlockon ptr
  | MonStreamWakeup ptr
  | MonStreamMoved ptr ptr

record world =
  streams :: "nat \<rightharpoonup> lpel_stream_t"
  descs :: "nat \<rightharpoonup> lpel_stream_desc_t"
  tasks :: "nat \<rightharpoonup> lpel_task_t"
  stream_seq :: "32 word"
  self_task :: ptr
  trace :: "event list"

text \<open>
  The world: the three stores, the counter \<open>stream_seq\<close> of stream.c, the task that
  is running (what \<open>LpelTaskSelf\<close> returns) and the log.

  The collaborators that are not part of stream.c are parameters: the compile-time
  default capacity, the allocator (\<open>NULL\<close> when it fails), the monitoring constructor,
  and what the rest of the system has done to the world when a suspended task is
  resumed (\<open>None\<close> when it never is).
\<close>

record ext =
  STREAM_BUFFER_SIZE :: int
  malloc :: "world \<Rightarrow> ptr"
  LpelMonStreamOpen :: "ptr \<Rightarrow> 32 word \<Rightarrow> char \<Rightarrow> ptr"
  resume :: "ptr \<Rightarrow> blocked \<Rightarrow> world \<Rightarrow> world option"

subsection \<open>Access through pointers\<close>

definition get_stream :: "world \<Rightarrow> ptr \<Rightarrow> lpel_stream_t result" where
  "get_stream w p =
     (case p of NULL \<Rightarrow> Fault Invalid_pointer
      | Ptr a \<Rightarrow> (case streams w a of None \<Rightarrow> Fault Invalid_pointer | Some s \<Rightarrow> Return s))"

definition get_desc :: "world \<Rightarrow> ptr \<Rightarrow> lpel_stream_desc_t result" where
  "get_desc w p =
     (case p of NULL \<Rightarrow> Fault Invalid_pointer
      | Ptr a \<Rightarrow> (case descs w a of None \<Rightarrow> Fault Invalid_pointer | Some d \<Rightarrow> Return d))"

definition get_task :: "world \<Rightarrow> ptr \<Rightarrow> lpel_task_t result" where
  "get_task w p =
     (case p of NULL \<Rightarrow> Fault Invalid_pointer
      | Ptr a \<Rightarrow> (case tasks w a of None \<Rightarrow> Fault Invalid_pointer | Some t \<Rightarrow> Return t))"

text \<open>Assignment through a pointer: a fault when the pointer is not valid.\<close>

definition upd_stream ::
  "world \<Rightarrow> ptr \<Rightarrow> (lpel_stream_t \<Rightarrow> lpel_stream_t) \<Rightarrow> world result" where
  "upd_stream w p f =
     (case p of NULL \<Rightarrow> Fault Invalid_pointer
      | Ptr a \<Rightarrow> (case streams w a of None \<Rightarrow> Fault Invalid_pointer
                  | Some s \<Rightarrow> Return (w \<lparr> streams := (streams w)(a \<mapsto> f s) \<rparr>)))"

definition upd_desc ::
  "world \<Rightarrow> ptr \<Rightarrow> (lpel_stream_desc_t \<Rightarrow> lpel_stream_desc_t) \<Rightarrow> world result" where
  "upd_desc w p f =
     (case p of NULL \<Rightarrow> Fault Invalid_pointer
      | Ptr a \<Rightarrow> (case descs w a of None \<Rightarrow> Fault Invalid_pointer
                  | Some d \<Rightarrow> Return (w \<lparr> descs := (descs w)(a \<mapsto> f d) \<rparr>)))"

definition upd_task ::
  "world \<Rightarrow> ptr \<Rightarrow> (lpel_task_t \<Rightarrow> lpel_task_t) \<Rightarrow> world result" where
  "upd_task w p f =
     (case p of NULL \<Rightarrow> Fault Invalid_pointer
      | Ptr a \<Rightarrow> (case tasks w a of None \<Rightarrow> Fault Invalid_pointer
                  | Some t \<Rightarrow> Return (w \<lparr> tasks := (tasks w)(a \<mapsto> f t) \<rparr>)))"

definition emit :: "world \<Rightarrow> event \<Rightarrow> world" where
  "emit w e = w \<lparr> trace := trace w @ [e] \<rparr>"

text \<open>A monitoring callback is made only when the descriptor has a monitoring object.\<close>

definition mon_emit :: "world \<Rightarrow> ptr \<Rightarrow> (ptr \<Rightarrow> event) \<Rightarrow> world" where
  "mon_emit w m e = (if m \<noteq> NULL then emit w (e m) else w)"

text \<open>
  Modelled from the spec: the scheduler interface (task.c is missing).
  \<open>Block\<close> suspends the calling task; control comes back only after a peer has
  unblocked it, in the world the rest of the system has made by then. The log of the
  calling task is its own and is kept. \<open>Unblock\<close> makes the target ready; only the
  call is logged.
\<close>

definition LpelTaskBlock :: "ext \<Rightarrow> world \<Rightarrow> ptr \<Rightarrow> blocked \<Rightarrow> world result" where
  "LpelTaskBlock x w t r =
     (let w1 = emit w (TaskBlock t r)
      in case resume x t r w1 of
           None \<Rightarrow> Fault Not_resumed
         | Some w2 \<Rightarrow> Return (w2 \<lparr> trace := trace w1 \<rparr>))"

definition LpelTaskUnblock :: "world \<Rightarrow> ptr \<Rightarrow> ptr \<Rightarrow> world" where
  "LpelTaskUnblock w by t = emit w (TaskUnblock by t)"

section \<open>Creation, opening, closing, replacing\<close>

definition LpelStreamCreate :: "ext \<Rightarrow> world \<Rightarrow> int \<Rightarrow> (ptr \<times> world) result" where
  "LpelStreamCreate x w size0 =
     bindR (assertR (size0 \<ge> 0)) (\<lambda>_.
       let sz = (if 0 = size0 then STREAM_BUFFER_SIZE x else size0);
           s = malloc x w
       in case s of
            NULL \<Rightarrow> Fault Invalid_pointer
          | Ptr a \<Rightarrow>
              Return (s, w \<lparr> streams := (streams w)(a \<mapsto>
                                \<lparr> buffer = LpelBufferInit sz,
                                  uid = stream_seq w,
                                  is_poll = 0,
                                  prod_sd = NULL,
                                  cons_sd = NULL,
                                  n_sem = 0,
                                  e_sem = sz \<rparr>),
                            stream_seq := stream_seq w + 1 \<rparr>))"

definition LpelStreamDestroy :: "world \<Rightarrow> ptr \<Rightarrow> world result" where
  "LpelStreamDestroy w s =
     bindR (get_stream w s) (\<lambda>_.
       case s of NULL \<Rightarrow> Fault Invalid_pointer
       | Ptr a \<Rightarrow> Return (w \<lparr> streams := (streams w)(a := None) \<rparr>))"

definition LpelStreamOpen :: "ext \<Rightarrow> world \<Rightarrow> ptr \<Rightarrow> char \<Rightarrow> (ptr \<times> world) result" where
  "LpelStreamOpen x w s md =
     (let ct = self_task w in
      bindR (assertR (md = CHR ''r'' \<or> md = CHR ''w'')) (\<lambda>_.
        let sd = malloc x w in
        case sd of
          NULL \<Rightarrow> Fault Invalid_pointer
        | Ptr a \<Rightarrow>
            bindR (get_task w ct) (\<lambda>t.
            bindR (get_stream w s) (\<lambda>st.
              let d = \<lparr> task = ct, stream = s, mode = md, next = NULL,
                        mon = LpelMonStreamOpen x (task_mon t) (uid st) md \<rparr>;
                  w1 = w \<lparr> descs := (descs w)(a \<mapsto> d) \<rparr>
              in bindR (if md = CHR ''r'' then upd_stream w1 s (\<lambda>z. z \<lparr> cons_sd := sd \<rparr>)
                        else upd_stream w1 s (\<lambda>z. z \<lparr> prod_sd := sd \<rparr>)) (\<lambda>w2.
                   Return (sd, w2))))))"

definition LpelStreamClose :: "world \<Rightarrow> ptr \<Rightarrow> int \<Rightarrow> world result" where
  "LpelStreamClose w sd destroy_s =
     bindR (get_desc w sd) (\<lambda>d.
       let w1 = mon_emit w (mon d) MonStreamClose in
       bindR (if destroy_s \<noteq> 0 then LpelStreamDestroy w1 (stream d) else Return w1) (\<lambda>w2.
         case sd of NULL \<Rightarrow> Fault Invalid_pointer
         | Ptr a \<Rightarrow> Return (w2 \<lparr> descs := (descs w2)(a := None) \<rparr>)))"

definition LpelStreamReplace :: "world \<Rightarrow> ptr \<Rightarrow> ptr \<Rightarrow> world result" where
  "LpelStreamReplace w sd snew =
     bindR (get_desc w sd) (\<lambda>d.
     bindR (assertR (mode d = CHR ''r'')) (\<lambda>_.
     bindR (LpelStreamDestroy w (stream d)) (\<lambda>w1.
     bindR (upd_desc w1 sd (\<lambda>z. z \<lparr> stream := snew \<rparr>)) (\<lambda>w2.
     bindR (upd_stream w2 snew (\<lambda>z. z \<lparr> cons_sd := sd \<rparr>)) (\<lambda>w3.
     bindR (get_stream w3 snew) (\<lambda>sn.
       Return (mon_emit w3 (mon d) (\<lambda>m. MonStreamReplace m (uid sn)))))))))"

definition LpelStreamGet :: "world \<Rightarrow> ptr \<Rightarrow> ptr result" where
  "LpelStreamGet w sd = bindR (get_desc w sd) (\<lambda>d. Return (stream d))"


section \<open>Atomic operations\<close>

text \<open>
  Modelled from the spec: the atomic counters (arch/atomic.h is missing).
  \<open>fetch_and_inc\<close> and \<open>fetch_and_dec\<close> change a counter by one and return the value
  it had before; \<open>atomic_swap\<close> stores a value and returns the previous one. The
  counter of a stream is named by its field and its field update.
\<close>

definition fetch_and_inc ::
  "(lpel_stream_t \<Rightarrow> int) \<Rightarrow> ((int \<Rightarrow> int) \<Rightarrow> lpel_stream_t \<Rightarrow> lpel_stream_t) \<Rightarrow>
   world \<Rightarrow> ptr \<Rightarrow> (int \<times> world) result" where
  "fetch_and_inc rd up w s =
     bindR (get_stream w s) (\<lambda>z.
     bindR (upd_stream w s (up (\<lambda>v. v + 1))) (\<lambda>w1.
       Return (rd z, w1)))"

definition fetch_and_dec ::
  "(lpel_stream_t \<Rightarrow> int) \<Rightarrow> ((int \<Rightarrow> int) \<Rightarrow> lpel_stream_t \<Rightarrow> lpel_stream_t) \<Rightarrow>
   world \<Rightarrow> ptr \<Rightarrow> (int \<times> world) result" where
  "fetch_and_dec rd up w s =
     bindR (get_stream w s) (\<lambda>z.
     bindR (upd_stream w s (up (\<lambda>v. v - 1))) (\<lambda>w1.
       Return (rd z, w1)))"

definition atomic_swap :: "world \<Rightarrow> ptr \<Rightarrow> int \<Rightarrow> (int \<times> world) result" where
  "atomic_swap w t v =
     bindR (get_task w t) (\<lambda>z.
     bindR (upd_task w t (\<lambda>y. y \<lparr> poll_token := v \<rparr>)) (\<lambda>w1.
       Return (poll_token z, w1)))"

section \<open>Reading and writing\<close>

text \<open>
  \<open>LpelStreamRead\<close>, stream.c lines 256-293, in two parts: P(n_sem) with the
  suspension (lines 263-269), and the rest (lines 272-292). The descriptor and its
  stream are read again after the suspension point, as the C expressions
  \<open>sd->stream->...\<close> do; \<open>self\<close> is the local variable set on entry.
\<close>

definition read_wait :: "ext \<Rightarrow> world \<Rightarrow> ptr \<Rightarrow> world result" where
  "read_wait x w sd =
     bindR (get_desc w sd) (\<lambda>d.
     let self = task d in
     bindR (assertR (mode d = CHR ''r'')) (\<lambda>_.
     bindR (fetch_and_dec n_sem n_sem_update w (stream d)) (\<lambda>(v, w1).
       if v = 0
       then LpelTaskBlock x (mon_emit w1 (mon d) MonStreamBlockon) self BLOCKED_ON_INPUT
       else Return w1)))"

definition read_take :: "world \<Rightarrow> ptr \<Rightarrow> ptr \<Rightarrow> (ptr \<times> world) result" where
  "read_take w sd self =
     bindR (get_desc w sd) (\<lambda>d.
     bindR (get_stream w (stream d)) (\<lambda>s.
     let item = LpelBufferTop (buffer s) in
     bindR (assertR (item \<noteq> NULL)) (\<lambda>_.
     bindR (upd_stream w (stream d) (\<lambda>z. z \<lparr> buffer := LpelBufferPop (buffer z) \<rparr>)) (\<lambda>w1.
     bindR (fetch_and_inc e_sem e_sem_update w1 (stream d)) (\<lambda>(v, w2).
     bindR (if v < 0
            then bindR (get_stream w2 (stream d)) (\<lambda>s2.
                 bindR (get_desc w2 (prod_sd s2)) (\<lambda>pd.
                   Return (mon_emit (LpelTaskUnblock w2 self (task pd))
                                    (mon d) MonStreamWakeup)))
            else Return w2) (\<lambda>w3.
       Return (item, mon_emit w3 (mon d) (\<lambda>m. MonStreamMoved m item))))))))"

definition LpelStreamRead :: "ext \<Rightarrow> world \<Rightarrow> ptr \<Rightarrow> (ptr \<times> world) result" where
  "LpelStreamRead x w sd =
     bindR (get_desc w sd) (\<lambda>d.
     bindR (read_wait x w sd) (\<lambda>w2.
       read_take w2 sd (task d)))"

text \<open>
  The critical section of \<open>LpelStreamWrite\<close> (lines 326-339): put the item, and if the
  consumer polls this stream take its poll token. The result is \<open>poll_wakeup\<close>.
\<close>

definition write_locked :: "world \<Rightarrow> ptr \<Rightarrow> ptr \<Rightarrow> (int \<times> world) result" where
  "write_locked w sd item =
     bindR (get_desc w sd) (\<lambda>d.
     bindR (get_stream w (stream d)) (\<lambda>s.
     bindR (assertR (LpelBufferIsSpace (buffer s))) (\<lambda>_.
     bindR (upd_stream w (stream d) (\<lambda>z. z \<lparr> buffer := LpelBufferPut (buffer z) item \<rparr>)) (\<lambda>w1.
       if is_poll s \<noteq> 0
       then bindR (get_desc w1 (cons_sd s)) (\<lambda>cd.
            bindR (atomic_swap w1 (task cd) 0) (\<lambda>(tok, w2).
            bindR (upd_stream w2 (stream d) (\<lambda>z. z \<lparr> is_poll := 0 \<rparr>)) (\<lambda>w3.
              Return (tok, w3))))
       else Return (0, w1)))))"

text \<open>The end of \<open>LpelStreamWrite\<close> (lines 343-361): V(n_sem) and the wakeups.\<close>

definition write_signal :: "world \<Rightarrow> ptr \<Rightarrow> ptr \<Rightarrow> int \<Rightarrow> world result" where
  "write_signal w sd self poll_wakeup =
     bindR (get_desc w sd) (\<lambda>d.
     bindR (fetch_and_inc n_sem n_sem_update w (stream d)) (\<lambda>(v, w1).
       if v < 0
       then bindR (get_stream w1 (stream d)) (\<lambda>s.
            bindR (get_desc w1 (cons_sd s)) (\<lambda>cd.
              Return (mon_emit (LpelTaskUnblock w1 self (task cd)) (mon d) MonStreamWakeup)))
       else if poll_wakeup \<noteq> 0
       then bindR (get_stream w1 (stream d)) (\<lambda>s.
            bindR (get_desc w1 (cons_sd s)) (\<lambda>cd.
            bindR (upd_task w1 (task cd) (\<lambda>t. t \<lparr> wakeup_sd := cons_sd s \<rparr>)) (\<lambda>w2.
              Return (mon_emit (LpelTaskUnblock w2 self (task cd)) (mon d) MonStreamWakeup))))
       else Return w1))"

text \<open>The beginning of \<open>LpelStreamWrite\<close> (lines 310-323): P(e_sem) and the suspension.\<close>

definition write_wait :: "ext \<Rightarrow> world \<Rightarrow> ptr \<Rightarrow> ptr \<Rightarrow> world result" where
  "write_wait x w sd item =
     bindR (get_desc w sd) (\<lambda>d.
     let self = task d in
     bindR (assertR (mode d = CHR ''w'')) (\<lambda>_.
     bindR (assertR (item \<noteq> NULL)) (\<lambda>_.
     bindR (fetch_and_dec e_sem e_sem_update w (stream d)) (\<lambda>(v, w1).
       if v = 0
       then LpelTaskBlock x (mon_emit w1 (mon d) MonStreamBlockon) self BLOCKED_ON_OUTPUT
       else Return w1))))"

text \<open>\<open>LpelStreamWrite\<close>, stream.c lines 308-365.\<close>

definition LpelStreamWrite :: "ext \<Rightarrow> world \<Rightarrow> ptr \<Rightarrow> ptr \<Rightarrow> world result" where
  "LpelStreamWrite x w sd item =
     bindR (get_desc w sd) (\<lambda>d.
     bindR (write_wait x w sd item) (\<lambda>w2.
     bindR (write_locked w2 sd item) (\<lambda>(poll_wakeup, w3).
     bindR (write_signal w3 sd (task d) poll_wakeup) (\<lambda>w4.
     bindR (get_desc w4 sd) (\<lambda>d4.
       Return (mon_emit w4 (mon d4) (\<lambda>m. MonStreamMoved m item)))))))"

text \<open>\<open>LpelStreamTryWrite\<close>, stream.c lines 378-385.\<close>

definition LpelStreamTryWrite :: "ext \<Rightarrow> world \<Rightarrow> ptr \<Rightarrow> ptr \<Rightarrow> (int \<times> world) result" where
  "LpelStreamTryWrite x w sd item =
     bindR (get_desc w sd) (\<lambda>d.
     bindR (get_stream w (stream d)) (\<lambda>s.
       if \<not> LpelBufferIsSpace (buffer s) then Return (- 1, w)
       else bindR (LpelStreamWrite x w sd item) (\<lambda>w1. Return (0, w1))))"

section \<open>Stream sets and polling\<close>











text \<open>
  \<open>LpelStreamPoll\<close>, stream.c lines 402-489. The argument is the value of \<open>*set\<close>;
  the result is the returned descriptor, the new value of \<open>*set\<close> and the world.
  \<open>None\<close> means that a traversal of the set never ends.
\<close>

definition bindO :: "'a result option \<Rightarrow> ('a \<Rightarrow> 'b result option) \<Rightarrow> 'b result option" where
  "bindO m f =
     (case m of None \<Rightarrow> None | Some (Fault e) \<Rightarrow> Some (Fault e) | Some (Return v) \<Rightarrow> f v)"




section \<open>Well-formed stream sets\<close>



text \<open>A descriptor fit for polling: valid, opened for reading, bound to a valid stream.\<close>

definition poll_desc_ok :: "world \<Rightarrow> ptr \<Rightarrow> bool" where
  "poll_desc_ok w sd =
     (case get_desc w sd of
        Return d \<Rightarrow> mode d = CHR ''r'' \<and>
          (case get_stream w (stream d) of Return s \<Rightarrow> True | Fault e \<Rightarrow> False)
      | Fault e \<Rightarrow> False)"

text \<open>The stream of a descriptor has an item: its \<open>Top\<close> is not null.\<close>

definition has_data :: "world \<Rightarrow> ptr \<Rightarrow> bool" where
  "has_data w sd =
     (case get_desc w sd of
        Return d \<Rightarrow>
          (case get_stream w (stream d) of
             Return s \<Rightarrow> LpelBufferTop (buffer s) \<noteq> NULL | Fault e \<Rightarrow> False)
      | Fault e \<Rightarrow> False)"


text \<open>The stream a descriptor is bound to (null when the descriptor is not valid).\<close>

definition poll_target :: "world \<Rightarrow> ptr \<Rightarrow> ptr" where
  "poll_target w sd = (case get_desc w sd of Return d \<Rightarrow> stream d | Fault e \<Rightarrow> NULL)"

text \<open>
  The world after the assignment \<open>sd->stream->is_poll = v\<close> (unchanged when a pointer
  on the way is not valid); the loops of \<open>LpelStreamPoll\<close> make a sequence of these.
\<close>

definition set_poll :: "int \<Rightarrow> ptr \<Rightarrow> world \<Rightarrow> world" where
  "set_poll v sd w =
     (case get_desc w sd of
        Return d \<Rightarrow>
          (case upd_stream w (stream d) (\<lambda>z. z \<lparr> is_poll := v \<rparr>) of
             Return w1 \<Rightarrow> w1 | Fault e \<Rightarrow> w)
      | Fault e \<Rightarrow> w)"




section \<open>The rest of the system while a poll is suspended\<close>

text \<open>
  A descriptor of the set is bound as the data model has it: it belongs to the polling
  task, the stream it reads has it as its consumer descriptor, no reader is blocked on
  that stream (\<open>n_sem\<close> is not negative) and the buffer holds no null item.
\<close>

definition poll_bound :: "world \<Rightarrow> ptr \<Rightarrow> ptr \<Rightarrow> bool" where
  "poll_bound w self sd =
     (case get_desc w sd of
        Return d \<Rightarrow> task d = self \<and>
          (case get_stream w (stream d) of
             Return s \<Rightarrow> cons_sd s = sd \<and> 0 \<le> n_sem s \<and> NULL \<notin> set (buf_data (buffer s))
           | Fault e \<Rightarrow> False)
      | Fault e \<Rightarrow> False)"













section \<open>Example worlds\<close>

text \<open>
  A consumer task (address 1) and a producer task (address 2) share the stream at
  address 10, of capacity 2, through the descriptors 20 (reading) and 30 (writing);
  the stream at address 11 is fresh. Nothing is monitored.
\<close>

definition ex_task :: lpel_task_t where
  "ex_task = \<lparr> task_mon = NULL, poll_token = 0, wakeup_sd = NULL \<rparr>"

definition ex_stream :: lpel_stream_t where
  "ex_stream = \<lparr> buffer = \<lparr> buf_size = 2, buf_data = [] \<rparr>, uid = 0, is_poll = 0,
                 prod_sd = Ptr 30, cons_sd = Ptr 20, n_sem = 0, e_sem = 2 \<rparr>"

definition ex_fresh :: lpel_stream_t where
  "ex_fresh = \<lparr> buffer = \<lparr> buf_size = 4, buf_data = [] \<rparr>, uid = 1, is_poll = 0,
                prod_sd = NULL, cons_sd = NULL, n_sem = 0, e_sem = 4 \<rparr>"

definition ex_rd :: lpel_stream_desc_t where
  "ex_rd = \<lparr> task = Ptr 1, stream = Ptr 10, mode = CHR ''r'', next = Ptr 20, mon = NULL \<rparr>"

definition ex_wd :: lpel_stream_desc_t where
  "ex_wd = \<lparr> task = Ptr 2, stream = Ptr 10, mode = CHR ''w'', next = NULL, mon = NULL \<rparr>"

definition ex_world :: world where
  "ex_world = \<lparr> streams = [10 \<mapsto> ex_stream, 11 \<mapsto> ex_fresh],
                descs = [20 \<mapsto> ex_rd, 30 \<mapsto> ex_wd],
                tasks = [1 \<mapsto> ex_task, 2 \<mapsto> ex_task],
                stream_seq = 2, self_task = Ptr 1, trace = [] \<rparr>"

text \<open>The same world with the stream full, and with the consumer blocked in a read.\<close>

definition ex_world_full :: world where
  "ex_world_full = ex_world \<lparr> streams := (streams ex_world)
     (10 \<mapsto> ex_stream \<lparr> buffer := \<lparr> buf_size = 2, buf_data = [Ptr 97, Ptr 98] \<rparr>,
                         n_sem := 2, e_sem := 0 \<rparr>) \<rparr>"

definition ex_world_reader_blocked :: world where
  "ex_world_reader_blocked =
     ex_world \<lparr> streams := (streams ex_world)(10 \<mapsto> ex_stream \<lparr> n_sem := - 1 \<rparr>) \<rparr>"

text \<open>
  Collaborators: an allocator that returns the free address 40 and a scheduler that
  never resumes; the same with an allocator that fails; the same with a scheduler under
  which, while the task is suspended, the producer writes the item 99 to the stream.
\<close>

definition ex_ext :: ext where
  "ex_ext = \<lparr> STREAM_BUFFER_SIZE = 16, malloc = (\<lambda>w. Ptr 40),
              LpelMonStreamOpen = (\<lambda>m u c. NULL), resume = (\<lambda>t r w. None) \<rparr>"

definition ex_ext_oom :: ext where
  "ex_ext_oom = ex_ext \<lparr> malloc := (\<lambda>w. NULL) \<rparr>"

definition ex_ext_writer :: ext where
  "ex_ext_writer = ex_ext \<lparr> resume := (\<lambda>t r w.
     case LpelStreamWrite ex_ext w (Ptr 30) (Ptr 99) of
       Return w1 \<Rightarrow> Some w1 | Fault e \<Rightarrow> None) \<rparr>"







section \<open>Basic facts\<close>

lemma bindR_Return [simp]: "bindR (Return v) f = f v"
  by (simp add: bindR_def)

lemma bindR_Fault [simp]: "bindR (Fault e) f = Fault e"
  by (simp add: bindR_def)

lemma bindR_assertR [simp]: "bindR (assertR b) f = (if b then f () else Fault Assert_failed)"
  by (simp add: assertR_def)

lemma get_stream_Ptr [simp]:
  "get_stream w (Ptr a) =
     (case streams w a of None \<Rightarrow> Fault Invalid_pointer | Some s \<Rightarrow> Return s)"
  by (simp add: get_stream_def)

lemma get_desc_Ptr [simp]:
  "get_desc w (Ptr a) =
     (case descs w a of None \<Rightarrow> Fault Invalid_pointer | Some d \<Rightarrow> Return d)"
  by (simp add: get_desc_def)

lemma get_task_Ptr [simp]:
  "get_task w (Ptr a) =
     (case tasks w a of None \<Rightarrow> Fault Invalid_pointer | Some t \<Rightarrow> Return t)"
  by (simp add: get_task_def)

lemma get_NULL [simp]:
  "get_stream w NULL = Fault Invalid_pointer"
  "get_desc w NULL = Fault Invalid_pointer"
  "get_task w NULL = Fault Invalid_pointer"
  by (simp_all add: get_stream_def get_desc_def get_task_def)

lemma get_stream_ReturnD: "get_stream w p = Return s \<Longrightarrow> \<exists>a. p = Ptr a \<and> streams w a = Some s"
  by (cases p) (auto split: option.splits)

lemma get_desc_ReturnD: "get_desc w p = Return d \<Longrightarrow> \<exists>a. p = Ptr a \<and> descs w a = Some d"
  by (cases p) (auto split: option.splits)

lemma get_task_ReturnD: "get_task w p = Return t \<Longrightarrow> \<exists>a. p = Ptr a \<and> tasks w a = Some t"
  by (cases p) (auto split: option.splits)

lemma upd_stream_Ptr [simp]:
  "streams w a = Some s \<Longrightarrow>
   upd_stream w (Ptr a) f = Return (w \<lparr> streams := (streams w)(a \<mapsto> f s) \<rparr>)"
  by (simp add: upd_stream_def)

lemma upd_task_Ptr [simp]:
  "tasks w a = Some t \<Longrightarrow>
   upd_task w (Ptr a) f = Return (w \<lparr> tasks := (tasks w)(a \<mapsto> f t) \<rparr>)"
  by (simp add: upd_task_def)

lemma upd_desc_Ptr [simp]:
  "descs w a = Some d \<Longrightarrow>
   upd_desc w (Ptr a) f = Return (w \<lparr> descs := (descs w)(a \<mapsto> f d) \<rparr>)"
  by (simp add: upd_desc_def)

lemmas ex_defs =
  ex_world_def ex_world_full_def ex_world_reader_blocked_def ex_stream_def ex_fresh_def
  ex_rd_def ex_wd_def ex_task_def ex_ext_def ex_ext_oom_def ex_ext_writer_def

lemmas rw_defs =
  LpelStreamWrite_def LpelStreamRead_def write_wait_def write_locked_def write_signal_def
  read_wait_def read_take_def fetch_and_dec_def fetch_and_inc_def atomic_swap_def
  LpelBufferIsSpace_def LpelBufferPut_def LpelBufferTop_def LpelBufferPop_def
  mon_emit_def emit_def LpelTaskUnblock_def LpelTaskBlock_def Let_def

section \<open>Creation, opening and replacing\<close>

text \<open>
  C7. For every size \<open>\<ge> 0\<close>, when the allocation succeeds, \<open>LpelStreamCreate\<close>
  returns a stream whose buffer has capacity \<open>size\<close> (the default
  \<open>STREAM_BUFFER_SIZE\<close> when \<open>size = 0\<close>) and is empty, with \<open>n_sem = 0\<close>,
  \<open>e_sem\<close> equal to the capacity, \<open>is_poll\<close> clear and both descriptor pointers null.
\<close>

theorem create_initial_state:
  assumes "0 \<le> size0" and "malloc x w = Ptr a"
  shows "\<exists>w' s. LpelStreamCreate x w size0 = Return (Ptr a, w')
           \<and> get_stream w' (Ptr a) = Return s
           \<and> buf_size (buffer s) = (if size0 = 0 then STREAM_BUFFER_SIZE x else size0)
           \<and> buf_data (buffer s) = []
           \<and> n_sem s = 0 \<and> e_sem s = buf_size (buffer s)
           \<and> is_poll s = 0 \<and> prod_sd s = NULL \<and> cons_sd s = NULL"
  using assms by (simp add: LpelStreamCreate_def LpelBufferInit_def Let_def)

theorem create_initial_state_witness:
  "\<exists>w' s. LpelStreamCreate ex_ext ex_world 0 = Return (Ptr 40, w')
     \<and> get_stream w' (Ptr 40) = Return s
     \<and> buf_size (buffer s) = 16 \<and> buf_data (buffer s) = []
     \<and> n_sem s = 0 \<and> e_sem s = 16
     \<and> is_poll s = 0 \<and> prod_sd s = NULL \<and> cons_sd s = NULL"
proof -
  have m: "malloc ex_ext ex_world = Ptr 40" by (simp add: ex_ext_def)
  have z: "(0::int) \<le> 0" by simp
  from create_initial_state [OF z m] show ?thesis
    by (auto simp add: ex_ext_def)
qed

text \<open>The uid counter is a 32-bit word: after the last value the next uid is 0.\<close>

lemma create_uid_wraps:
  "malloc x w = Ptr a \<Longrightarrow> stream_seq w = - 1 \<Longrightarrow>
   \<exists>w'. LpelStreamCreate x w 1 = Return (Ptr a, w') \<and> stream_seq w' = 0"
  by (simp add: LpelStreamCreate_def Let_def)

text \<open>
  C8, as the code has it. \<open>LpelStreamCreate\<close> and \<open>LpelStreamOpen\<close> do not test what
  \<open>malloc\<close> returns: when the allocation fails they follow the null pointer, which is
  a fault, and nothing is returned to the caller; no stream or descriptor is created.
\<close>

theorem alloc_failure_faults:
  assumes "malloc x w = NULL"
  shows "(0 \<le> size0 \<longrightarrow> LpelStreamCreate x w size0 = Fault Invalid_pointer)
       \<and> (md = CHR ''r'' \<or> md = CHR ''w'' \<longrightarrow> LpelStreamOpen x w s md = Fault Invalid_pointer)"
  using assms by (auto simp add: LpelStreamCreate_def LpelStreamOpen_def Let_def)

theorem alloc_failure_faults_witness:
  "LpelStreamCreate ex_ext_oom ex_world 0 = Fault Invalid_pointer
   \<and> LpelStreamOpen ex_ext_oom ex_world (Ptr 11) CHR ''w'' = Fault Invalid_pointer"
proof -
  have m: "malloc ex_ext_oom ex_world = NULL" by (simp add: ex_ext_oom_def)
  from alloc_failure_faults [OF m, of 0 "CHR ''w''" "Ptr 11"] show ?thesis by simp
qed

text \<open>
  C8, as the specification states it, fails: with an allocator that fails, creating a
  stream of capacity 4 and opening the stream at address 10 for reading do not return
  a failure value to the caller but fault on the null pointer.
\<close>

theorem alloc_failure_not_propagated:
  "LpelStreamCreate ex_ext_oom ex_world 4 = Fault Invalid_pointer
   \<and> LpelStreamOpen ex_ext_oom ex_world (Ptr 10) CHR ''r'' = Fault Invalid_pointer"
  by (simp add: LpelStreamCreate_def LpelStreamOpen_def ex_ext_oom_def Let_def)

text \<open>
  C9. For a read-mode descriptor \<open>sd\<close> and a stream \<open>snew\<close> other than the one it is
  bound to, \<open>LpelStreamReplace\<close> destroys the old stream, sets \<open>sd.stream = snew\<close>
  and \<open>snew.cons_sd = sd\<close>, and changes nothing else: the other fields of the
  descriptor (task, mode, next, mon), the other descriptors, the other streams and the
  tasks are as before.
\<close>

theorem replace_frame:
  assumes "get_desc w sd = Return d" and "mode d = CHR ''r''"
    and "get_stream w (stream d) = Return so"
    and "get_stream w snew = Return sn" and "snew \<noteq> stream d"
  shows "\<exists>w'. LpelStreamReplace w sd snew = Return w'
          \<and> get_stream w' (stream d) = Fault Invalid_pointer
          \<and> get_desc w' sd = Return (d \<lparr> stream := snew \<rparr>)
          \<and> get_stream w' snew = Return (sn \<lparr> cons_sd := sd \<rparr>)
          \<and> (\<forall>p. p \<noteq> sd \<longrightarrow> get_desc w' p = get_desc w p)
          \<and> (\<forall>p. p \<noteq> snew \<and> p \<noteq> stream d \<longrightarrow> get_stream w' p = get_stream w p)
          \<and> tasks w' = tasks w"
  using assms
  by (cases sd; cases snew; cases "stream d")
     (auto simp add: LpelStreamReplace_def LpelStreamDestroy_def get_stream_def upd_stream_def
        upd_desc_def get_desc_def mon_emit_def emit_def Let_def
        split: option.splits ptr.splits)

theorem replace_frame_witness:
  "\<exists>w'. LpelStreamReplace ex_world (Ptr 20) (Ptr 11) = Return w'
     \<and> get_stream w' (Ptr 10) = Fault Invalid_pointer
     \<and> get_desc w' (Ptr 20) = Return (ex_rd \<lparr> stream := Ptr 11 \<rparr>)
     \<and> get_stream w' (Ptr 11) = Return (ex_fresh \<lparr> cons_sd := Ptr 20 \<rparr>)
     \<and> get_desc w' (Ptr 30) = Return ex_wd
     \<and> tasks w' = tasks ex_world"
proof -
  have d: "get_desc ex_world (Ptr 20) = Return ex_rd" by (simp add: ex_world_def)
  have md: "mode ex_rd = CHR ''r''" by (simp add: ex_rd_def)
  have so: "get_stream ex_world (stream ex_rd) = Return ex_stream"
    by (simp add: ex_world_def ex_rd_def)
  have sn: "get_stream ex_world (Ptr 11) = Return ex_fresh" by (simp add: ex_world_def)
  have ne: "Ptr 11 \<noteq> stream ex_rd" by (simp add: ex_rd_def)
  have wd: "get_desc ex_world (Ptr 30) = Return ex_wd" by (simp add: ex_world_def)
  from replace_frame [OF d md so sn ne] obtain w' where
    w': "LpelStreamReplace ex_world (Ptr 20) (Ptr 11) = Return w'"
        "get_stream w' (stream ex_rd) = Fault Invalid_pointer"
        "get_desc w' (Ptr 20) = Return (ex_rd \<lparr> stream := Ptr 11 \<rparr>)"
        "get_stream w' (Ptr 11) = Return (ex_fresh \<lparr> cons_sd := Ptr 20 \<rparr>)"
        "\<forall>p. p \<noteq> Ptr 20 \<longrightarrow> get_desc w' p = get_desc ex_world p"
        "tasks w' = tasks ex_world"
    by blast
  have "get_desc w' (Ptr 30) = Return ex_wd"
    using w'(5) [rule_format, of "Ptr 30"] wd by simp
  moreover have "get_stream w' (Ptr 10) = Fault Invalid_pointer"
    using w'(2) by (simp add: ex_rd_def)
  ultimately show ?thesis using w'(1,3,4,6) by blast
qed

text \<open>
  C10. \<open>LpelStreamOpen\<close> makes no double-bind check: for every stream, whatever its
  \<open>cons_sd\<close> and \<open>prod_sd\<close> hold, opening it (with a valid mode, a valid calling task
  and a successful allocation) succeeds, overwrites \<open>cons_sd\<close> (mode r) or
  \<open>prod_sd\<close> (mode w) with the new descriptor, and returns that descriptor.
\<close>

theorem open_overwrites:
  assumes "malloc x w = Ptr a" and "get_task w (self_task w) = Return t"
    and "get_stream w s = Return st" and "md = CHR ''r'' \<or> md = CHR ''w''"
  shows "\<exists>w'. LpelStreamOpen x w s md = Return (Ptr a, w')
          \<and> get_stream w' s = Return (if md = CHR ''r'' then st \<lparr> cons_sd := Ptr a \<rparr>
                                       else st \<lparr> prod_sd := Ptr a \<rparr>)
          \<and> get_desc w' (Ptr a) =
              Return \<lparr> task = self_task w, stream = s, mode = md, next = NULL,
                       mon = LpelMonStreamOpen x (task_mon t) (uid st) md \<rparr>"
  using assms
  by (cases s)
     (auto simp add: LpelStreamOpen_def upd_stream_def Let_def split: option.splits)

theorem open_overwrites_witness:
  "cons_sd ex_stream = Ptr 20
   \<and> (\<exists>w'. LpelStreamOpen ex_ext ex_world (Ptr 10) CHR ''r'' = Return (Ptr 40, w')
         \<and> get_stream w' (Ptr 10) = Return (ex_stream \<lparr> cons_sd := Ptr 40 \<rparr>))"
proof -
  have m: "malloc ex_ext ex_world = Ptr 40" by (simp add: ex_ext_def)
  have t: "get_task ex_world (self_task ex_world) = Return ex_task" by (simp add: ex_world_def)
  have st: "get_stream ex_world (Ptr 10) = Return ex_stream" by (simp add: ex_world_def)
  have md: "CHR ''r'' = CHR ''r'' \<or> CHR ''r'' = CHR ''w''" by simp
  from open_overwrites [OF m t st md] show ?thesis
    by (auto simp add: ex_stream_def)
qed

section \<open>Round trip\<close>

text \<open>
  C1. On an empty stream (no item, \<open>n_sem = 0\<close>, \<open>e_sem\<close> equal to the capacity, which
  is at least 1) whose consumer descriptor is \<open>sd_r\<close>, writing a non-null item through
  \<open>sd_w\<close> and then reading through \<open>sd_r\<close> returns exactly that item, and the stream
  is empty again afterwards: \<open>n_sem\<close> is 0 and \<open>e_sem\<close> is the capacity.
\<close>

theorem write_read_roundtrip:
  assumes "get_desc w sd_w = Return dw" and "mode dw = CHR ''w''"
    and "get_desc w sd_r = Return dr" and "mode dr = CHR ''r''"
    and "stream dw = stream dr"
    and "get_stream w (stream dr) = Return s"
    and "cons_sd s = sd_r" and "get_task w (task dr) = Return t"
    and "buf_data (buffer s) = []" and "n_sem s = 0" 
    and "e_sem s = buf_size (buffer s)" and "1 \<le> buf_size (buffer s)"
    and "item \<noteq> NULL"
  shows "\<exists>w1 w2 s2. LpelStreamWrite x w sd_w item = Return w1
           \<and> LpelStreamRead x w1 sd_r = Return (item, w2)
           \<and> get_stream w2 (stream dr) = Return s2
           \<and> buf_data (buffer s2) = [] \<and> n_sem s2 = 0
           \<and> e_sem s2 = buf_size (buffer s) \<and> buf_size (buffer s2) = buf_size (buffer s)"
proof -
  from assms(1) obtain aw where aw: "sd_w = Ptr aw" "descs w aw = Some dw" by (auto dest: get_desc_ReturnD)
  from assms(3) obtain ar where ar: "sd_r = Ptr ar" "descs w ar = Some dr" by (auto dest: get_desc_ReturnD)
  from assms(6) obtain a where a: "stream dr = Ptr a" "streams w a = Some s" by (auto dest: get_stream_ReturnD)
  from assms(8) obtain ta where ta: "task dr = Ptr ta" "tasks w ta = Some t" by (auto dest: get_task_ReturnD)
  show ?thesis
    using assms(2,4,5,7,9-) aw ar a ta
    by (auto simp add: LpelStreamWrite_def LpelStreamRead_def write_wait_def write_locked_def write_signal_def
        read_wait_def read_take_def fetch_and_dec_def fetch_and_inc_def atomic_swap_def
        LpelBufferIsSpace_def LpelBufferPut_def LpelBufferTop_def LpelBufferPop_def
        mon_emit_def emit_def LpelTaskUnblock_def Let_def)
qed


section \<open>Suspension and wakeups in reading and writing\<close>









text \<open>
  C6. \<open>LpelStreamTryWrite\<close> on a stream whose buffer has no space returns -1 and
  leaves the whole world as it was (buffer, counters, \<open>is_poll\<close>, tasks and the log of
  events); when the buffer has space it does what \<open>LpelStreamWrite\<close> does and
  returns 0.
\<close>

theorem trywrite_full_or_write:
  assumes "get_desc w sd = Return d" and "get_stream w (stream d) = Return s"
  shows "(\<not> LpelBufferIsSpace (buffer s) \<longrightarrow> LpelStreamTryWrite x w sd item = Return (- 1, w))
       \<and> (LpelBufferIsSpace (buffer s) \<longrightarrow>
            LpelStreamTryWrite x w sd item =
              bindR (LpelStreamWrite x w sd item) (\<lambda>w1. Return (0, w1)))"
  using assms by (simp add: LpelStreamTryWrite_def)


theorem write_read_roundtrip_witness:
  "\<exists>w1 w2 s2. LpelStreamWrite ex_ext ex_world (Ptr 30) (Ptr 99) = Return w1
     \<and> LpelStreamRead ex_ext w1 (Ptr 20) = Return (Ptr 99, w2)
     \<and> get_stream w2 (Ptr 10) = Return s2
     \<and> buf_data (buffer s2) = [] \<and> n_sem s2 = 0 \<and> e_sem s2 = 2"
proof -
  have h: "get_desc ex_world (Ptr 30) = Return ex_wd" "mode ex_wd = CHR ''w''"
    "get_desc ex_world (Ptr 20) = Return ex_rd" "mode ex_rd = CHR ''r''"
    "stream ex_wd = stream ex_rd" "get_stream ex_world (stream ex_rd) = Return ex_stream"
    "cons_sd ex_stream = Ptr 20" "get_task ex_world (task ex_rd) = Return ex_task"
    "buf_data (buffer ex_stream) = []" "n_sem ex_stream = 0"
    "e_sem ex_stream = buf_size (buffer ex_stream)" "1 \<le> buf_size (buffer ex_stream)"
    "Ptr 99 \<noteq> NULL"
    by (simp_all add: ex_defs)
  from write_read_roundtrip [OF h, of ex_ext] show ?thesis
    by (auto simp add: ex_rd_def ex_stream_def)
qed



theorem trywrite_full_or_write_witness:
  "LpelStreamTryWrite ex_ext ex_world_full (Ptr 30) (Ptr 99) = Return (- 1, ex_world_full)
   \<and> (\<exists>w1. LpelStreamWrite ex_ext ex_world (Ptr 30) (Ptr 99) = Return w1
          \<and> LpelStreamTryWrite ex_ext ex_world (Ptr 30) (Ptr 99) = Return (0, w1))"
proof -
  have f: "get_desc ex_world_full (Ptr 30) = Return ex_wd"
    "get_stream ex_world_full (stream ex_wd) = Return (ex_stream \<lparr> buffer := \<lparr> buf_size = 2, buf_data = [Ptr 97, Ptr 98] \<rparr>,
                         n_sem := 2, e_sem := 0 \<rparr>)"
    by (simp_all add: ex_defs)
  have g: "get_desc ex_world (Ptr 30) = Return ex_wd"
    "get_stream ex_world (stream ex_wd) = Return ex_stream"
    by (simp_all add: ex_defs)
  obtain w1 where w1: "LpelStreamWrite ex_ext ex_world (Ptr 30) (Ptr 99) = Return w1"
    by (simp add: ex_defs rw_defs)
  from trywrite_full_or_write [OF f, of ex_ext "Ptr 99"]
       trywrite_full_or_write [OF g, of ex_ext "Ptr 99"] w1
  show ?thesis
    by (simp add: LpelBufferIsSpace_def ex_stream_def)
qed

section \<open>Polling\<close>

lemma bindO_simps [simp]:
  "bindO (Some (Return v)) f = f v"
  "bindO (Some (Fault e)) f = Some (Fault e)"
  "bindO None f = None"
  by (simp_all add: bindO_def)

subsection \<open>Setting the poll flag\<close>

lemma set_poll_frame [simp]:
  "descs (set_poll v p w) = descs w"
  "tasks (set_poll v p w) = tasks w"
  "trace (set_poll v p w) = trace w"
  by (simp_all add: set_poll_def upd_stream_def split: result.splits ptr.splits option.splits)

lemma set_poll_streams:
  "streams (set_poll v p w) a =
     (case streams w a of None \<Rightarrow> None
      | Some s \<Rightarrow> Some (if poll_target w p = Ptr a then s \<lparr> is_poll := v \<rparr> else s))"
  by (simp add: set_poll_def poll_target_def upd_stream_def
           split: result.splits ptr.splits option.splits)

lemma fold_set_poll_frame [simp]:
  "descs (fold (set_poll v) ps w) = descs w"
  "tasks (fold (set_poll v) ps w) = tasks w"
  "trace (fold (set_poll v) ps w) = trace w"
  by (induction ps arbitrary: w) simp_all

lemma get_desc_descs: "descs w1 = descs w \<Longrightarrow> get_desc w1 p = get_desc w p"
  by (cases p) simp_all

lemma get_task_tasks: "tasks w1 = tasks w \<Longrightarrow> get_task w1 p = get_task w p"
  by (cases p) simp_all




lemma get_stream_set_poll:
  "get_stream (set_poll v p w) q =
     (case get_stream w q of Fault e \<Rightarrow> Fault e
      | Return s \<Rightarrow> Return (if poll_target w p = q then s \<lparr> is_poll := v \<rparr> else s))"
  by (cases q) (auto simp add: set_poll_streams split: option.splits)

lemma get_desc_set_poll [simp]: "get_desc (set_poll v p w) q = get_desc w q"
  by (rule get_desc_descs) simp

lemma get_task_set_poll [simp]: "get_task (set_poll v p w) q = get_task w q"
  by (rule get_task_tasks) simp

lemma poll_desc_ok_set_poll [simp]: "poll_desc_ok (set_poll v p w) q = poll_desc_ok w q"
  by (auto simp add: poll_desc_ok_def get_stream_set_poll split: result.splits)

lemma has_data_set_poll [simp]: "has_data (set_poll v p w) q = has_data w q"
  by (auto simp add: has_data_def get_stream_set_poll split: result.splits)

lemma get_desc_fold_set_poll [simp]: "get_desc (fold (set_poll v) ps w) q = get_desc w q"
  by (rule get_desc_descs) simp

lemma get_task_fold_set_poll [simp]: "get_task (fold (set_poll v) ps w) q = get_task w q"
  by (rule get_task_tasks) simp

lemma poll_desc_ok_fold_set_poll [simp]:
  "poll_desc_ok (fold (set_poll v) ps w) q = poll_desc_ok w q"
  by (induction ps arbitrary: w) simp_all

lemma has_data_fold_set_poll [simp]: "has_data (fold (set_poll v) ps w) q = has_data w q"
  by (induction ps arbitrary: w) simp_all

subsection \<open>The iterator\<close>








subsection \<open>The loop bodies\<close>




subsection \<open>The loops\<close>














subsection \<open>Writes of producers while the poll is suspended\<close>










lemma poll_bound_set_poll [simp]: "poll_bound (set_poll v p w) self q = poll_bound w self q"
  by (auto simp add: poll_bound_def get_stream_set_poll split: result.splits)

lemma poll_bound_fold_set_poll [simp]:
  "poll_bound (fold (set_poll v) ps w) self q = poll_bound w self q"
  by (induction ps arbitrary: w) simp_all








section \<open>Polling on the example worlds\<close>









end
